theory Spec2Isabelle
  imports Main "HOL-Library.Word"
begin

unbundle bit_operations_syntax

section \<open>Flow multiplexing of rtp-over-quic: \<^verbatim>\<open>transport/flow.go\<close>\<close>

text \<open>
  The Go package \<^verbatim>\<open>transport\<close> multiplexes RTP and RTCP onto sub-flows. Everything the
  functions of \<^verbatim>\<open>flow.go\<close> do beyond returning a value is a call into a collaborator: the
  bound \<^verbatim>\<open>io.Writer\<close>, the prioritization policy, the local feedback generator. The model
  makes the calls to transports and policy explicit as a trace of events, so that "what
  was passed to the transport" and "nothing was written" are statements about the trace;
  the generator's state is part of the group's state.

  The model is sequential: one call at a time on a group or sub-flow, as the callers of
  the package are expected to make them. Go values are modelled as follows: \<^verbatim>\<open>[]byte\<close> is
  a list of 8-bit words (by value: the contents at the time of the call), \<^verbatim>\<open>uint64\<close>,
  \<^verbatim>\<open>uint32\<close>, \<^verbatim>\<open>uint16\<close> are words, \<^verbatim>\<open>int\<close> is an integer (no arithmetic that could
  overflow is done on it here), a Go result \<^verbatim>\<open>(int, error)\<close> is a pair whose second
  component is \<open>None\<close> for \<^verbatim>\<open>nil\<close>, and a panic is the left injection of a sum.
\<close>

subsection \<open>Bytes, errors, panics\<close>

type_synonym byte = "8 word"
type_synonym bytes = "byte list"

text \<open>\<^verbatim>\<open>var errInvalidTransport = errors.New("transport does not implement ack/loss callback")\<close>;
  every other error value comes from a collaborator (the RTP and RTCP codecs, the transport)
  and is opaque here.\<close>

datatype error = errInvalidTransport | CollaboratorError string

fun Error :: "error \<Rightarrow> string" where
  "Error errInvalidTransport = ''transport does not implement ack/loss callback''"
| "Error (CollaboratorError msg) = msg"

text \<open>The panics the code can raise: a method call on the \<^verbatim>\<open>nil\<close> transport or a field
  access through a \<^verbatim>\<open>nil\<close> pointer, the explicit \<^verbatim>\<open>panic(fmt.Errorf("no flow with prio %v found", prio))\<close>,
  and the panic of \<^verbatim>\<open>quicvarint.Write\<close> on a value that does not fit into 62 bits.\<close>

datatype panic = NilDereference | NoFlowWithPrio int | VarintOutOfRange "64 word"

type_synonym go_result = "int \<times> error option"

subsection \<open>The QUIC variable-length integer encoding\<close>

text \<open>
  \<^verbatim>\<open>quicvarint.Write\<close> belongs to the quic-go library, not to this repository. It is modelled
  after the library function (RFC 9000, section 16): one, two, four or eight bytes, the
  two most significant bits of the first byte giving the length, and a panic above
  \<open>2^62 - 1\<close>. \<^verbatim>\<open>uint8(x)\<close> truncates, which is \<open>ucast\<close>.
\<close>

definition maxVarInt1 :: "64 word" where "maxVarInt1 = 63"
definition maxVarInt2 :: "64 word" where "maxVarInt2 = 16383"
definition maxVarInt4 :: "64 word" where "maxVarInt4 = 1073741823"
definition maxVarInt8 :: "64 word" where "maxVarInt8 = 4611686018427387903"

definition quicvarint_Write :: "64 word \<Rightarrow> panic + bytes" where
  "quicvarint_Write i =
     (if i \<le> maxVarInt1 then Inr [ucast i]
      else if i \<le> maxVarInt2 then Inr [ucast (drop_bit 8 i) OR 0x40, ucast i]
      else if i \<le> maxVarInt4 then
        Inr [ucast (drop_bit 24 i) OR 0x80, ucast (drop_bit 16 i), ucast (drop_bit 8 i), ucast i]
      else if i \<le> maxVarInt8 then
        Inr [ucast (drop_bit 56 i) OR 0xc0, ucast (drop_bit 48 i), ucast (drop_bit 40 i),
             ucast (drop_bit 32 i), ucast (drop_bit 24 i), ucast (drop_bit 16 i),
             ucast (drop_bit 8 i), ucast i]
      else Inl (VarintOutOfRange i))"

subsection \<open>Transports and the trace of calls into collaborators\<close>

text \<open>
  A sub-flow holds an \<^verbatim>\<open>io.Writer\<close>. The type switch of \<^verbatim>\<open>writeWithCallBack\<close> tells three
  kinds of dynamic type apart: \<^verbatim>\<open>*Dgram\<close>, \<^verbatim>\<open>*Stream\<close>, and anything else. The number is the
  identity of the object pointed to; the \<^verbatim>\<open>nil\<close> interface value is \<open>None\<close> of
  \<open>writer option\<close>.
\<close>

datatype writer = Dgram nat | Stream nat | OtherWriter nat

text \<open>The fields of \<^verbatim>\<open>rtp.Header\<close> (pion/rtp), as far as the code reads them, and the
  remaining public fields of the struct. Its methods \<^verbatim>\<open>Marshal\<close> and \<^verbatim>\<open>MarshalSize\<close> belong
  to the codec, which is a collaborator: the functions below take them as parameters.\<close>

record Header =
  Version :: byte
  Padding :: bool
  Extension :: bool
  Marker :: bool
  PayloadType :: byte
  SequenceNumber :: "16 word"
  Timestamp :: "32 word"
  SSRC :: "32 word"
  CSRC :: "32 word list"
  ExtensionProfile :: "16 word"
  Extensions :: "(byte \<times> bytes) list"

text \<open>
  One event per call into a collaborator, in the order the calls are made:
  \<^item> \<open>EvWrite t p\<close>: \<^verbatim>\<open>t.Write(p)\<close> on the bound \<^verbatim>\<open>io.Writer\<close>;
  \<^item> \<open>EvWriteWithAckLossCallback t p cb\<close>: \<^verbatim>\<open>t.WriteWithAckLossCallback(p, cb)\<close> on a
    \<^verbatim>\<open>*Dgram\<close> or \<^verbatim>\<open>*Stream\<close>;
  \<^item> \<open>EvPrioritize h p\<close>: \<^verbatim>\<open>prioritizer.Prioritize(h, p)\<close>.
  The type \<open>'cb\<close> is the type of callbacks (\<^verbatim>\<open>func(bool)\<close>).
\<close>

datatype 'cb event =
    EvWrite writer bytes
  | EvWriteWithAckLossCallback writer bytes 'cb
  | EvPrioritize Header bytes

type_synonym 'cb trace = "'cb event list"

text \<open>The methods \<^verbatim>\<open>Write\<close> and \<^verbatim>\<open>WriteWithAckLossCallback\<close> of the transports are not part
  of \<^verbatim>\<open>flow.go\<close>. What they return is a parameter of the model: a function of the calls made
  so far and of the call itself.\<close>

type_synonym 'cb transport_impl = "'cb trace \<Rightarrow> 'cb event \<Rightarrow> go_result"

subsection \<open>Sub-flows\<close>

text \<open>\<^verbatim>\<open>type flow struct { transport io.Writer; useID bool; id uint64; varIntID []byte }\<close>
  (the field \<^verbatim>\<open>id\<close> is \<open>id'\<close> here, \<open>id\<close> being the identity function of HOL).\<close>

record flow =
  transport :: "writer option"
  useID :: bool
  id' :: "64 word"
  varIntID :: bytes

definition newFlow :: flow where
  "newFlow = \<lparr>transport = None, useID = False, id' = 0, varIntID = []\<rparr>"

text \<open>\<^verbatim>\<open>newFlowWithID\<close> writes the identifier into a fresh \<^verbatim>\<open>bytes.Buffer\<close> with
  \<^verbatim>\<open>quicvarint.Write\<close> and keeps the buffer's bytes; the panic of \<^verbatim>\<open>quicvarint.Write\<close>
  leaves no flow.\<close>

definition newFlowWithID :: "64 word \<Rightarrow> panic + flow" where
  "newFlowWithID i =
     (case quicvarint_Write i of
        Inl p \<Rightarrow> Inl p
      | Inr buf \<Rightarrow> Inr \<lparr>transport = None, useID = True, id' = i, varIntID = buf\<rparr>)"

text \<open>The framing shared by both write functions:
  \<^verbatim>\<open>if f.useID { payload = append(f.varIntID, payload...) }\<close>. The result is the contents
  of the new slice when the transport is called. (\<^verbatim>\<open>varIntID\<close> is a slice of the buffer it
  was written to, so \<^verbatim>\<open>append\<close> may put the payload into the spare capacity behind the
  identifier instead of allocating; the bytes of the identifier are not overwritten, and
  no function here reads a framed payload after the call that passes it on.)\<close>

definition frame :: "flow \<Rightarrow> bytes \<Rightarrow> bytes" where
  "frame f payload = (if useID f then varIntID f @ payload else payload)"

text \<open>\<^verbatim>\<open>func (f *flow) write(payload []byte) (int, error)\<close>. A method call on the \<^verbatim>\<open>nil\<close>
  interface value panics before anything is written.\<close>

definition flow_write ::
  "'cb transport_impl \<Rightarrow> flow \<Rightarrow> bytes \<Rightarrow> 'cb trace \<Rightarrow> (panic + go_result) \<times> 'cb trace" where
  "flow_write impl f payload tr =
     (let payload = frame f payload in
      case transport f of
        None \<Rightarrow> (Inl NilDereference, tr)
      | Some t \<Rightarrow> (Inr (impl tr (EvWrite t payload)), tr @ [EvWrite t payload]))"

text \<open>\<^verbatim>\<open>func (f *flow) writeWithCallBack(payload []byte, callback func(bool)) (int, error)\<close>.
  The type switch has the cases \<^verbatim>\<open>*Dgram\<close>, \<^verbatim>\<open>*Stream\<close> and \<^verbatim>\<open>default\<close>; the \<^verbatim>\<open>nil\<close>
  interface value takes the default case.\<close>

definition flow_writeWithCallBack ::
  "'cb transport_impl \<Rightarrow> flow \<Rightarrow> bytes \<Rightarrow> 'cb \<Rightarrow> 'cb trace \<Rightarrow> (panic + go_result) \<times> 'cb trace" where
  "flow_writeWithCallBack impl f payload callback tr =
     (let payload = frame f payload in
      case transport f of
        Some (Dgram r) \<Rightarrow>
          (Inr (impl tr (EvWriteWithAckLossCallback (Dgram r) payload callback)),
           tr @ [EvWriteWithAckLossCallback (Dgram r) payload callback])
      | Some (Stream r) \<Rightarrow>
          (Inr (impl tr (EvWriteWithAckLossCallback (Stream r) payload callback)),
           tr @ [EvWriteWithAckLossCallback (Stream r) payload callback])
      | _ \<Rightarrow> (Inr (0, Some errInvalidTransport), tr))"

subsection \<open>The RTCP sub-flow\<close>

text \<open>\<^verbatim>\<open>type RTCPFlow struct { *flow }\<close>: the embedded flow is the whole state. The packets
  are of an interface type of the RTCP codec; \<^verbatim>\<open>rtcp.Marshal\<close> is a parameter
  (\<open>marshal\<close>), and so the packet type is a type variable.\<close>

definition NewRTCPFlow :: flow where
  "NewRTCPFlow = newFlow"

definition NewRTCPFlowWithID :: "64 word \<Rightarrow> panic + flow" where
  "NewRTCPFlowWithID i = newFlowWithID i"

definition RTCPFlow_Bind :: "writer option \<Rightarrow> flow \<Rightarrow> flow" where
  "RTCPFlow_Bind t f = f\<lparr>transport := t\<rparr>"

definition RTCPFlow_Write ::
  "('p list \<Rightarrow> error + bytes) \<Rightarrow> 'cb transport_impl \<Rightarrow> flow \<Rightarrow> 'p list \<Rightarrow> 'cb trace
     \<Rightarrow> (panic + go_result) \<times> 'cb trace" where
  "RTCPFlow_Write marshal impl f pkts tr =
     (case marshal pkts of
        Inl err \<Rightarrow> (Inr (0, Some err), tr)
      | Inr buf \<Rightarrow> flow_write impl f buf tr)"

subsection \<open>The prioritized group of RTP sub-flows\<close>

text \<open>\<^verbatim>\<open>type Prioritizer interface { Prioritize(*rtp.Header, []byte) int }\<close>: a policy is
  a function of header and payload, as \<^verbatim>\<open>PrioritizerFunc\<close> makes one; that it was called is
  an event of the trace. The header argument is a pointer in Go; headers and policies are
  taken to be present (not \<^verbatim>\<open>nil\<close>), and a policy is taken to leave the header and the
  payload it is handed as they are.\<close>

type_synonym Prioritizer = "Header \<Rightarrow> bytes \<Rightarrow> int"

definition defaultPriorityFunc :: Prioritizer where
  "defaultPriorityFunc = (\<lambda>h b. 0)"

text \<open>\<^verbatim>\<open>type RTPFlow struct { prioritizer Prioritizer; flows map[int]*flow; localFeedback *localRFC8888Generator }\<close>.
  Every \<^verbatim>\<open>*flow\<close> in the map is created by the function that stores it and is reachable
  only through the map, so the map holds the flows by value. The generator type and its
  methods are not in \<^verbatim>\<open>flow.go\<close>: its state is a type variable \<open>'g\<close>, and \<open>None\<close> is the
  \<^verbatim>\<open>nil\<close> pointer.\<close>

record 'g RTPFlow =
  prioritizer :: Prioritizer
  flows :: "int \<rightharpoonup> flow"
  localFeedback :: "'g option"

definition NewRTPFlow :: "'g RTPFlow" where
  "NewRTPFlow = \<lparr>prioritizer = defaultPriorityFunc, flows = [0 \<mapsto> newFlow], localFeedback = None\<rparr>"

definition NewRTPFlowWithID :: "64 word \<Rightarrow> panic + 'g RTPFlow" where
  "NewRTPFlowWithID i =
     (case newFlowWithID i of
        Inl p \<Rightarrow> Inl p
      | Inr f \<Rightarrow> Inr \<lparr>prioritizer = defaultPriorityFunc, flows = [0 \<mapsto> f], localFeedback = None\<rparr>)"

text \<open>\<^verbatim>\<open>RunLocalFeedback\<close> stores the generator that \<^verbatim>\<open>newLocalRFC8888Generator(ssrc, m, reportCB)\<close>
  returns and starts its \<^verbatim>\<open>Run\<close> as a goroutine. The constructor is a parameter (\<open>newgen\<close>),
  taken to return a generator and not \<^verbatim>\<open>nil\<close>; the goroutine and its context are outside
  this sequential model.\<close>

definition RunLocalFeedback ::
  "(32 word \<Rightarrow> 'm \<Rightarrow> 'r \<Rightarrow> 'g) \<Rightarrow> 32 word \<Rightarrow> 'm \<Rightarrow> 'r \<Rightarrow> 'g RTPFlow \<Rightarrow> 'g RTPFlow" where
  "RunLocalFeedback newgen ssrc m reportCB f = f\<lparr>localFeedback := Some (newgen ssrc m reportCB)\<rparr>"

text \<open>\<^verbatim>\<open>f.flows[0].transport = t\<close>: a missing key yields the \<^verbatim>\<open>nil\<close> pointer, and the
  assignment through it panics.\<close>

definition RTPFlow_Bind :: "writer option \<Rightarrow> 'g RTPFlow \<Rightarrow> panic + 'g RTPFlow" where
  "RTPFlow_Bind t f =
     (case flows f 0 of
        None \<Rightarrow> Inl NilDereference
      | Some fl \<Rightarrow> Inr (f\<lparr>flows := (flows f)(0 \<mapsto> fl\<lparr>transport := t\<rparr>)\<rparr>))"

definition BindPriority :: "int \<Rightarrow> 64 word \<Rightarrow> writer option \<Rightarrow> 'g RTPFlow \<Rightarrow> panic + 'g RTPFlow" where
  "BindPriority priority flowID t f =
     (case newFlowWithID flowID of
        Inl p \<Rightarrow> Inl p
      | Inr fl \<Rightarrow> Inr (f\<lparr>flows := (flows f)(priority \<mapsto> fl\<lparr>transport := t\<rparr>)\<rparr>))"

definition SetPrioritizer :: "Prioritizer \<Rightarrow> 'g RTPFlow \<Rightarrow> 'g RTPFlow" where
  "SetPrioritizer p f = f\<lparr>prioritizer := p\<rparr>"

text \<open>\<^verbatim>\<open>type ackedPkt\<close> is declared with the generator; \<^verbatim>\<open>ackCallback\<close> fills the four
  fields \<^verbatim>\<open>sentTS\<close>, \<^verbatim>\<open>ssrc\<close>, \<^verbatim>\<open>size\<close>, \<^verbatim>\<open>seqNr\<close> (\<^verbatim>\<open>size\<close> is \<open>size'\<close> here). A
  \<^verbatim>\<open>time.Time\<close> is the reading of the clock, an integer.\<close>

type_synonym time = int

record ackedPkt =
  sentTS :: time
  ssrc :: "32 word"
  size' :: int
  seqNr :: "16 word"

text \<open>
  \<^verbatim>\<open>func (f *RTPFlow) ackCallback(sent time.Time, ssrc uint32, size int, seqNr uint16) func(bool)\<close>.
  The closure keeps the pointer \<^verbatim>\<open>f\<close> and reads \<^verbatim>\<open>f.localFeedback\<close> when it is called, so a
  callback is a function of the boolean and of the group at that time, returning the
  group. The generator's method \<^verbatim>\<open>ack\<close> is a parameter (\<open>ack\<close>): how the generator's
  state changes when it is handed a record. The method is called through the pointer,
  which is \<^verbatim>\<open>nil\<close> only in a group on which \<^verbatim>\<open>RunLocalFeedback\<close> was never called.
\<close>

type_synonym 'g callback = "bool \<Rightarrow> 'g RTPFlow \<Rightarrow> panic + 'g RTPFlow"

definition ackCallback ::
  "(ackedPkt \<Rightarrow> 'g \<Rightarrow> 'g) \<Rightarrow> time \<Rightarrow> 32 word \<Rightarrow> int \<Rightarrow> 16 word \<Rightarrow> 'g callback" where
  "ackCallback ack sent ssrc_arg size_arg seqNr_arg =
     (\<lambda>b f.
        if b then
          (case localFeedback f of
             None \<Rightarrow> Inl NilDereference
           | Some g \<Rightarrow>
               Inr (f\<lparr>localFeedback :=
                 Some (ack \<lparr>sentTS = sent, ssrc = ssrc_arg, size' = size_arg, seqNr = seqNr_arg\<rparr> g)\<rparr>))
        else Inr f)"

text \<open>
  \<^verbatim>\<open>func (f *RTPFlow) Write(header *rtp.Header, payload []byte, _ interceptor.Attributes) (int, error)\<close>.
  The parameters \<open>Marshal\<close> and \<open>MarshalSize\<close> are the methods of \<^verbatim>\<open>rtp.Header\<close>, \<open>now\<close> is
  the reading of \<^verbatim>\<open>time.Now()\<close>. The function assigns to no field of the group, so it
  returns no group.
\<close>

definition RTPFlow_Write ::
  "(Header \<Rightarrow> error + bytes) \<Rightarrow> (Header \<Rightarrow> int) \<Rightarrow> (ackedPkt \<Rightarrow> 'g \<Rightarrow> 'g) \<Rightarrow>
   'g callback transport_impl \<Rightarrow> time \<Rightarrow> 'g RTPFlow \<Rightarrow> Header \<Rightarrow> bytes \<Rightarrow> 'g callback trace
     \<Rightarrow> (panic + go_result) \<times> 'g callback trace" where
  "RTPFlow_Write Marshal MarshalSize ack impl now f header payload tr =
     (case Marshal header of
        Inl err \<Rightarrow> (Inr (0, Some err), tr)
      | Inr headerBuf \<Rightarrow>
          (let prio = prioritizer f header payload;
               tr1 = tr @ [EvPrioritize header payload]
           in case flows f prio of
                None \<Rightarrow> (Inl (NoFlowWithPrio prio), tr1)
              | Some fl \<Rightarrow>
                  (case localFeedback f of
                     Some g \<Rightarrow>
                       flow_writeWithCallBack impl fl (headerBuf @ payload)
                         (ackCallback ack now (SSRC header) (MarshalSize header) (SequenceNumber header))
                         tr1
                   | None \<Rightarrow> flow_write impl fl (headerBuf @ payload) tr1)))"

subsection \<open>Sequences of operations on a group\<close>

text \<open>The collaborators of a group, collected: the two methods of \<^verbatim>\<open>rtp.Header\<close>, the
  constructor and the method \<^verbatim>\<open>ack\<close> of the generator, and the transports.\<close>

record ('g, 'm, 'r) collaborators =
  header_Marshal :: "Header \<Rightarrow> error + bytes"
  header_MarshalSize :: "Header \<Rightarrow> int"
  generator_new :: "32 word \<Rightarrow> 'm \<Rightarrow> 'r \<Rightarrow> 'g"
  generator_ack :: "ackedPkt \<Rightarrow> 'g \<Rightarrow> 'g"
  transport_impl :: "'g callback transport_impl"

text \<open>The calls a client can make on a group once it is created; \<open>OpWrite\<close> carries the
  clock reading of its \<^verbatim>\<open>time.Now()\<close>.\<close>

datatype ('m, 'r) rtp_op =
    OpBind "writer option"
  | OpBindPriority int "64 word" "writer option"
  | OpSetPrioritizer Prioritizer
  | OpRunLocalFeedback "32 word" 'm 'r
  | OpWrite Header bytes time

text \<open>One call, on the group and the trace so far. A panic is reported with the group and
  the trace as they are when it is raised.\<close>

fun step ::
  "('g, 'm, 'r) collaborators \<Rightarrow> ('m, 'r) rtp_op \<Rightarrow> 'g RTPFlow \<times> 'g callback trace
     \<Rightarrow> panic option \<times> 'g RTPFlow \<times> 'g callback trace" where
  "step K (OpBind t) (f, tr) =
     (case RTPFlow_Bind t f of Inl p \<Rightarrow> (Some p, f, tr) | Inr f' \<Rightarrow> (None, f', tr))"
| "step K (OpBindPriority priority flowID t) (f, tr) =
     (case BindPriority priority flowID t f of Inl p \<Rightarrow> (Some p, f, tr) | Inr f' \<Rightarrow> (None, f', tr))"
| "step K (OpSetPrioritizer p) (f, tr) = (None, SetPrioritizer p f, tr)"
| "step K (OpRunLocalFeedback s m r) (f, tr) = (None, RunLocalFeedback (generator_new K) s m r f, tr)"
| "step K (OpWrite h payload now) (f, tr) =
     (case RTPFlow_Write (header_Marshal K) (header_MarshalSize K) (generator_ack K)
             (transport_impl K) now f h payload tr of
        (Inl p, tr') \<Rightarrow> (Some p, f, tr')
      | (Inr res, tr') \<Rightarrow> (None, f, tr'))"

text \<open>A sequence of calls; a panic ends it.\<close>

fun run ::
  "('g, 'm, 'r) collaborators \<Rightarrow> ('m, 'r) rtp_op list \<Rightarrow> 'g RTPFlow \<times> 'g callback trace
     \<Rightarrow> panic option \<times> 'g RTPFlow \<times> 'g callback trace" where
  "run K [] s = (None, s)"
| "run K (x # xs) s =
     (case step K x s of
        (Some p, s') \<Rightarrow> (Some p, s')
      | (None, s') \<Rightarrow> run K xs s')"

fun is_plain_write :: "'cb event \<Rightarrow> bool" where
  "is_plain_write (EvWrite t p) = True"
| "is_plain_write (EvWriteWithAckLossCallback t p cb) = False"
| "is_plain_write (EvPrioritize h p) = False"

fun is_callback_write :: "'cb event \<Rightarrow> bool" where
  "is_callback_write (EvWrite t p) = False"
| "is_callback_write (EvWriteWithAckLossCallback t p cb) = True"
| "is_callback_write (EvPrioritize h p) = False"

fun is_RunLocalFeedback :: "('m, 'r) rtp_op \<Rightarrow> bool" where
  "is_RunLocalFeedback (OpRunLocalFeedback s m r) = True"
| "is_RunLocalFeedback (OpBind t) = False"
| "is_RunLocalFeedback (OpBindPriority priority flowID t) = False"
| "is_RunLocalFeedback (OpSetPrioritizer p) = False"
| "is_RunLocalFeedback (OpWrite h payload now) = False"

fun event_writer :: "'cb event \<Rightarrow> writer option" where
  "event_writer (EvWrite t p) = Some t"
| "event_writer (EvWriteWithAckLossCallback t p cb) = Some t"
| "event_writer (EvPrioritize h p) = None"

text \<open>The writers on which the type switch of \<^verbatim>\<open>writeWithCallBack\<close> finds
  \<^verbatim>\<open>WriteWithAckLossCallback\<close>.\<close>

fun has_WriteWithAckLossCallback :: "writer \<Rightarrow> bool" where
  "has_WriteWithAckLossCallback (Dgram r) = True"
| "has_WriteWithAckLossCallback (Stream r) = True"
| "has_WriteWithAckLossCallback (OtherWriter r) = False"

subsection \<open>Example collaborators and inputs\<close>

text \<open>
  The collaborators are parameters; the instances below are used where a property is
  evaluated on a concrete input. They stand for collaborators and are not translations of
  them:
  \<^item> \<open>example_Marshal\<close> yields twelve bytes (the length of the fixed RTP header) for a header
    without extension and rejects every header with one; pion/rtp rejects, for instance,
    a header with an RFC 3550 extension whose payload is not a multiple of four bytes long,
    as \<open>unmarshallable_header\<close> is, with the error "short buffer";
  \<^item> \<open>accepting_transport\<close> accepts every write and returns the number of bytes it was
    given;
  \<^item> the example generator keeps the list of the records it was handed.
\<close>

definition example_header :: Header where
  "example_header = \<lparr>Version = 2, Padding = False, Extension = False, Marker = True,
     PayloadType = 96, SequenceNumber = 1000, Timestamp = 90000, SSRC = 51966, CSRC = [],
     ExtensionProfile = 0, Extensions = []\<rparr>"

definition unmarshallable_header :: Header where
  "unmarshallable_header = example_header\<lparr>Extension := True, ExtensionProfile := 4660,
     Extensions := [(0, [1, 2, 3])]\<rparr>"

definition example_Marshal :: "Header \<Rightarrow> error + bytes" where
  "example_Marshal h =
     (if Extension h then Inl (CollaboratorError ''short buffer'') else Inr (replicate 12 0))"

definition example_MarshalSize :: "Header \<Rightarrow> int" where
  "example_MarshalSize h = (if Extension h then 20 else 12)"

definition accepting_transport :: "'cb transport_impl" where
  "accepting_transport tr ev =
     (case ev of
        EvWrite t p \<Rightarrow> (int (length p), None)
      | EvWriteWithAckLossCallback t p cb \<Rightarrow> (int (length p), None)
      | EvPrioritize h p \<Rightarrow> (0, None))"

definition example_new :: "32 word \<Rightarrow> unit \<Rightarrow> unit \<Rightarrow> ackedPkt list" where
  "example_new s m r = []"

definition example_ack :: "ackedPkt \<Rightarrow> ackedPkt list \<Rightarrow> ackedPkt list" where
  "example_ack pkt g = g @ [pkt]"

definition example_collaborators :: "(ackedPkt list, unit, unit) collaborators" where
  "example_collaborators =
     \<lparr>header_Marshal = example_Marshal, header_MarshalSize = example_MarshalSize,
      generator_new = example_new, generator_ack = example_ack,
      transport_impl = accepting_transport\<rparr>"

text \<open>The policy of the specification's scenario B, and a policy that always answers the
  same class.\<close>

definition marker_policy :: Prioritizer where
  "marker_policy h b = (if Marker h then 1 else 0)"

definition fixed_policy :: "int \<Rightarrow> Prioritizer" where
  "fixed_policy c h b = c"

text \<open>A group with sub-flows at the classes 0 and 1, as the calls \<open>example_setup\<close> leave
  it.\<close>

definition example_setup :: "(unit, unit) rtp_op list" where
  "example_setup =
     [OpBind (Some (Dgram 0)), OpBindPriority 1 7 (Some (Dgram 1)), OpSetPrioritizer marker_policy]"

definition example_group :: "ackedPkt list RTPFlow" where
  "example_group =
     \<lparr>prioritizer = marker_policy,
      flows = [0 \<mapsto> \<lparr>transport = Some (Dgram 0), useID = False, id' = 0, varIntID = []\<rparr>,
               1 \<mapsto> \<lparr>transport = Some (Dgram 1), useID = True, id' = 7, varIntID = [7]\<rparr>],
      localFeedback = None\<rparr>"

text \<open>The group that \<^verbatim>\<open>NewRTPFlowWithID(7)\<close> creates, and its sub-flow.\<close>

definition identified_flow :: flow where
  "identified_flow = \<lparr>transport = None, useID = True, id' = 7, varIntID = [7]\<rparr>"

definition identified_group :: "ackedPkt list RTPFlow" where
  "identified_group =
     \<lparr>prioritizer = defaultPriorityFunc, flows = [0 \<mapsto> identified_flow], localFeedback = None\<rparr>"

text \<open>The group of \<^verbatim>\<open>NewRTPFlow\<close> after \<^verbatim>\<open>Bind\<close> of a writer that is neither a \<^verbatim>\<open>*Dgram\<close> nor a
  \<^verbatim>\<open>*Stream\<close>.\<close>

definition other_writer_group :: "ackedPkt list RTPFlow" where
  "other_writer_group =
     \<lparr>prioritizer = defaultPriorityFunc,
      flows = [0 \<mapsto> \<lparr>transport = Some (OtherWriter 0), useID = False, id' = 0, varIntID = []\<rparr>],
      localFeedback = None\<rparr>"

text \<open>The same group after \<^verbatim>\<open>RunLocalFeedback\<close>.\<close>

definition feedback_group :: "ackedPkt list RTPFlow" where
  "feedback_group = RunLocalFeedback example_new 51966 () () example_group"

text \<open>An RTCP codec for the examples: a packet is the bytes it serializes to, or \<open>None\<close>
  when it cannot be serialized.\<close>

definition example_rtcp_Marshal :: "bytes option list \<Rightarrow> error + bytes" where
  "example_rtcp_Marshal pkts =
     (if None \<in> set pkts then Inl (CollaboratorError ''invalid packet'')
      else Inr (concat (map (case_option [] (\<lambda>b. b)) pkts)))"

section \<open>Congestion-control algorithm names: package \<^verbatim>\<open>controller\<close>\<close>

text \<open>\<^verbatim>\<open>type CongestionControlAlgorithm int\<close> with the constants \<^verbatim>\<open>Reno\<close> to \<^verbatim>\<open>GCC\<close> numbered
  by \<^verbatim>\<open>iota\<close>. Both conversions call \<^verbatim>\<open>log.Printf\<close> in their default case; the result is
  paired with the lines logged.\<close>

type_synonym CongestionControlAlgorithm = int

definition Reno :: CongestionControlAlgorithm where "Reno = 0"
definition Cubic :: CongestionControlAlgorithm where "Cubic = 1"
definition BBR :: CongestionControlAlgorithm where "BBR = 2"
definition SCReAM :: CongestionControlAlgorithm where "SCReAM = 3"
definition GCC :: CongestionControlAlgorithm where "GCC = 4"

datatype warning = UnknownAlgorithm string | UndefinedAlgorithm string

definition CongestionControlAlgorithmFromString ::
  "string \<Rightarrow> CongestionControlAlgorithm \<times> warning list" where
  "CongestionControlAlgorithmFromString a =
     (if a = ''reno'' then (Reno, [])
      else if a = ''cubic'' then (Cubic, [])
      else if a = ''bbr'' then (BBR, [])
      else if a = ''scream'' then (SCReAM, [])
      else if a = ''gcc'' then (GCC, [])
      else (Reno, [UnknownAlgorithm a]))"

text \<open>
  \<^verbatim>\<open>func (a CongestionControlAlgorithm) String() string\<close>. In the default case
  \<^verbatim>\<open>log.Printf("warning, undefined algorithm: %v", a)\<close> formats \<^verbatim>\<open>a\<close>, whose type has the
  method \<^verbatim>\<open>String\<close>, by calling that method: the call is made again on the same value
  before anything is logged or returned. The function is therefore partial; \<open>None\<close> is
  the call that does not return (the Go runtime ends the program when the stack is
  exhausted).
\<close>

partial_function (option) CongestionControlAlgorithm_String ::
  "CongestionControlAlgorithm \<Rightarrow> (string \<times> warning list) option" where
  "CongestionControlAlgorithm_String a =
     (if a = Reno then Some (''reno'', [])
      else if a = Cubic then Some (''cubic'', [])
      else if a = BBR then Some (''bbr'', [])
      else if a = SCReAM then Some (''scream'', [])
      else if a = GCC then Some (''gcc'', [])
      else Option.bind (CongestionControlAlgorithm_String a)
             (\<lambda>(shown, logged). Some (''none'', logged @ [UndefinedAlgorithm shown])))"

section \<open>Properties\<close>

subsection \<open>The events a write appends to the trace\<close>

lemma flow_write_trace:
  "flow_write impl fl bs tr = (res, tr') \<Longrightarrow>
   tr' = tr \<or> (\<exists>t. transport fl = Some t \<and> tr' = tr @ [EvWrite t (frame fl bs)])"
  by (auto simp: flow_write_def Let_def split: option.splits)

lemma flow_writeWithCallBack_trace:
  "flow_writeWithCallBack impl fl bs cb tr = (res, tr') \<Longrightarrow>
   tr' = tr \<or> (\<exists>t. transport fl = Some t \<and> tr' = tr @ [EvWriteWithAckLossCallback t (frame fl bs) cb])"
  by (auto simp: flow_writeWithCallBack_def Let_def split: option.splits writer.splits)

lemma RTPFlow_Write_events:
  assumes "RTPFlow_Write M MS ack impl now f h p tr = (res, tr')"
  shows "tr' = tr \<or> tr' = tr @ [EvPrioritize h p]
     \<or> (\<exists>hb fl t. M h = Inr hb \<and> flows f (prioritizer f h p) = Some fl \<and> transport fl = Some t
          \<and> localFeedback f = None
          \<and> tr' = tr @ [EvPrioritize h p, EvWrite t (frame fl (hb @ p))])
     \<or> (\<exists>hb fl t. M h = Inr hb \<and> flows f (prioritizer f h p) = Some fl \<and> transport fl = Some t
          \<and> localFeedback f \<noteq> None
          \<and> tr' = tr @ [EvPrioritize h p, EvWriteWithAckLossCallback t (frame fl (hb @ p))
               (ackCallback ack now (SSRC h) (MS h) (SequenceNumber h))])"
proof (cases "M h")
  case (Inl err)
  with assms show ?thesis by (simp add: RTPFlow_Write_def)
next
  case (Inr hb)
  show ?thesis
  proof (cases "flows f (prioritizer f h p)")
    case None
    with Inr assms show ?thesis by (simp add: RTPFlow_Write_def Let_def)
  next
    case (Some fl)
    show ?thesis
    proof (cases "localFeedback f")
      case None
      with Inr Some assms
      have "flow_write impl fl (hb @ p) (tr @ [EvPrioritize h p]) = (res, tr')"
        by (simp add: RTPFlow_Write_def Let_def)
      from flow_write_trace [OF this] Inr Some None show ?thesis by auto
    next
      case (Some g)
      with Inr \<open>flows f (prioritizer f h p) = Some fl\<close> assms
      have "flow_writeWithCallBack impl fl (hb @ p)
              (ackCallback ack now (SSRC h) (MS h) (SequenceNumber h)) (tr @ [EvPrioritize h p]) = (res, tr')"
        by (simp add: RTPFlow_Write_def Let_def)
      from flow_writeWithCallBack_trace [OF this] Inr Some \<open>flows f (prioritizer f h p) = Some fl\<close>
      show ?thesis by auto
    qed
  qed
qed

text \<open>What one call does to the three things the invariants speak of.\<close>

lemma step_Write:
  "step K (OpWrite h p now) (f, tr) = (r, f', tr') \<Longrightarrow>
   f' = f \<and> tr' = snd (RTPFlow_Write (header_Marshal K) (header_MarshalSize K) (generator_ack K)
             (transport_impl K) now f h p tr)"
  by (auto split: prod.splits sum.splits)

lemma step_flows_0:
  assumes "step K x (f, tr) = (r, f', tr')" and "flows f 0 \<noteq> None"
  shows "flows f' 0 \<noteq> None"
proof (cases x)
  case (OpWrite h p now)
  with assms step_Write [of K h p now f tr r f' tr'] show ?thesis by simp
qed (use assms in \<open>auto simp: RTPFlow_Bind_def BindPriority_def SetPrioritizer_def
      RunLocalFeedback_def split: option.splits sum.splits\<close>)

lemma run_flows_0:
  "run K xs (f, tr) = (r, f', tr') \<Longrightarrow> flows f 0 \<noteq> None \<Longrightarrow> flows f' 0 \<noteq> None"
proof (induction xs arbitrary: f tr)
  case Nil
  then show ?case by simp
next
  case (Cons x xs)
  obtain r1 f1 tr1 where s: "step K x (f, tr) = (r1, f1, tr1)"
    by (cases "step K x (f, tr)")
  from step_flows_0 [OF s Cons.prems(2)] have f1: "flows f1 0 \<noteq> None" .
  show ?case
  proof (cases r1)
    case None
    with s Cons.prems(1) have "run K xs (f1, tr1) = (r, f', tr')" by simp
    from Cons.IH [OF this f1] show ?thesis .
  next
    case (Some pn)
    with s Cons.prems(1) have "f' = f1" by simp
    with f1 show ?thesis by simp
  qed
qed

lemma step_localFeedback:
  assumes "step K x (f, tr) = (r, f', tr')"
  shows "(localFeedback f \<noteq> None \<longrightarrow> localFeedback f' \<noteq> None)
       \<and> (localFeedback f = None \<and> \<not> is_RunLocalFeedback x \<longrightarrow> localFeedback f' = None)"
proof (cases x)
  case (OpWrite h p now)
  with assms step_Write [of K h p now f tr r f' tr'] show ?thesis by simp
qed (use assms in \<open>auto simp: RTPFlow_Bind_def BindPriority_def SetPrioritizer_def
      RunLocalFeedback_def split: option.splits sum.splits\<close>)

lemma step_trace:
  assumes "step K x (f, tr) = (r, f', tr')"
  shows "\<exists>evs. tr' = tr @ evs
           \<and> (localFeedback f \<noteq> None \<longrightarrow> (\<forall>e \<in> set evs. \<not> is_plain_write e))
           \<and> (localFeedback f = None \<longrightarrow> (\<forall>e \<in> set evs. \<not> is_callback_write e))"
proof (cases x)
  case (OpWrite h p now)
  obtain res tw where w: "RTPFlow_Write (header_Marshal K) (header_MarshalSize K) (generator_ack K)
             (transport_impl K) now f h p tr = (res, tw)"
    by (cases "RTPFlow_Write (header_Marshal K) (header_MarshalSize K) (generator_ack K)
             (transport_impl K) now f h p tr")
  with assms OpWrite step_Write [of K h p now f tr r f' tr'] have "tr' = tw" by simp
  with RTPFlow_Write_events [OF w] show ?thesis by auto
qed (use assms in \<open>auto simp: RTPFlow_Bind_def BindPriority_def SetPrioritizer_def
      RunLocalFeedback_def split: option.splits sum.splits\<close>)

lemma run_enabled:
  "run K xs (f, tr) = (r, f', tr') \<Longrightarrow> localFeedback f \<noteq> None \<Longrightarrow>
   localFeedback f' \<noteq> None \<and> (\<exists>evs. tr' = tr @ evs \<and> (\<forall>e \<in> set evs. \<not> is_plain_write e))"
proof (induction xs arbitrary: f tr)
  case Nil
  then show ?case by simp
next
  case (Cons x xs)
  obtain r1 f1 tr1 where s: "step K x (f, tr) = (r1, f1, tr1)"
    by (cases "step K x (f, tr)")
  from step_localFeedback [OF s] Cons.prems(2) have f1: "localFeedback f1 \<noteq> None" by simp
  from step_trace [OF s] Cons.prems(2)
  obtain evs1 where e1: "tr1 = tr @ evs1" "\<forall>e \<in> set evs1. \<not> is_plain_write e" by auto
  show ?case
  proof (cases r1)
    case None
    with s Cons.prems(1) have "run K xs (f1, tr1) = (r, f', tr')" by simp
    from Cons.IH [OF this f1]
    obtain evs2 where e2: "localFeedback f' \<noteq> None" "tr' = tr1 @ evs2"
        "\<forall>e \<in> set evs2. \<not> is_plain_write e" by auto
    with e1 have "tr' = tr @ (evs1 @ evs2) \<and> (\<forall>e \<in> set (evs1 @ evs2). \<not> is_plain_write e)"
      by auto
    with e2(1) show ?thesis by blast
  next
    case (Some pn)
    with s Cons.prems(1) have "f' = f1" "tr' = tr1" by simp_all
    with f1 e1 show ?thesis by blast
  qed
qed

lemma run_disabled:
  "run K xs (f, tr) = (r, f', tr') \<Longrightarrow> localFeedback f = None \<Longrightarrow>
   \<forall>x \<in> set xs. \<not> is_RunLocalFeedback x \<Longrightarrow>
   localFeedback f' = None \<and> (\<exists>evs. tr' = tr @ evs \<and> (\<forall>e \<in> set evs. \<not> is_callback_write e))"
proof (induction xs arbitrary: f tr)
  case Nil
  then show ?case by simp
next
  case (Cons x xs)
  obtain r1 f1 tr1 where s: "step K x (f, tr) = (r1, f1, tr1)"
    by (cases "step K x (f, tr)")
  from step_localFeedback [OF s] Cons.prems(2,3) have f1: "localFeedback f1 = None" by simp
  from step_trace [OF s] Cons.prems(2)
  obtain evs1 where e1: "tr1 = tr @ evs1" "\<forall>e \<in> set evs1. \<not> is_callback_write e" by auto
  show ?case
  proof (cases r1)
    case None
    with s Cons.prems(1) have "run K xs (f1, tr1) = (r, f', tr')" by simp
    from Cons.IH [OF this f1] Cons.prems(3)
    obtain evs2 where e2: "localFeedback f' = None" "tr' = tr1 @ evs2"
        "\<forall>e \<in> set evs2. \<not> is_callback_write e" by auto
    with e1 have "tr' = tr @ (evs1 @ evs2) \<and> (\<forall>e \<in> set (evs1 @ evs2). \<not> is_callback_write e)"
      by auto
    with e2(1) show ?thesis by blast
  next
    case (Some pn)
    with s Cons.prems(1) have "f' = f1" "tr' = tr1" by simp_all
    with f1 e1 show ?thesis by blast
  qed
qed

lemmas example_defs = example_header_def unmarshallable_header_def example_Marshal_def
  example_MarshalSize_def accepting_transport_def example_new_def example_ack_def
  example_collaborators_def marker_policy_def fixed_policy_def example_setup_def example_group_def
  feedback_group_def example_rtcp_Marshal_def identified_flow_def identified_group_def
  other_writer_group_def


subsection \<open>The varint model on the examples of RFC 9000, appendix A.1\<close>

lemmas maxVarInt_defs = maxVarInt1_def maxVarInt2_def maxVarInt4_def maxVarInt8_def

lemma quicvarint_Write_37: "quicvarint_Write 37 = Inr [0x25]"
  by (simp add: quicvarint_Write_def maxVarInt_defs)

lemma quicvarint_Write_15293: "quicvarint_Write 15293 = Inr [0x7b, 0xbd]"
  by (simp add: quicvarint_Write_def maxVarInt_defs drop_bit_eq_div)

lemma quicvarint_Write_494878333: "quicvarint_Write 494878333 = Inr [0x9d, 0x7f, 0x3e, 0x7d]"
  by (simp add: quicvarint_Write_def maxVarInt_defs drop_bit_eq_div)

lemma quicvarint_Write_151288809941952652:
  "quicvarint_Write 151288809941952652 = Inr [0xc2, 0x19, 0x7c, 0x5e, 0xff, 0x14, 0xe8, 0x8c]"
  by (simp add: quicvarint_Write_def maxVarInt_defs drop_bit_eq_div)

lemma quicvarint_Write_panics:
  "quicvarint_Write 4611686018427387904 = Inl (VarintOutOfRange 4611686018427387904)"
  by (simp add: quicvarint_Write_def maxVarInt_defs)

subsection \<open>The example group\<close>

lemmas op_defs = NewRTPFlow_def newFlow_def RTPFlow_Bind_def BindPriority_def SetPrioritizer_def
  RunLocalFeedback_def newFlowWithID_def NewRTPFlowWithID_def

lemmas write_defs = RTPFlow_Write_def flow_write_def flow_writeWithCallBack_def frame_def Let_def

text \<open>The calls of \<open>example_setup\<close> on a fresh group leave \<open>example_group\<close>.\<close>

lemma example_setup_run:
  "run example_collaborators example_setup (NewRTPFlow, []) = (None, example_group, [])"
  by (simp add: example_defs op_defs quicvarint_Write_def maxVarInt1_def fun_upd_twist)

subsection \<open>Sub-flows\<close>

text \<open>
  Claim C1. For every payload \<open>P\<close>, \<^verbatim>\<open>write(P)\<close> on a sub-flow constructed with an identifier
  \<open>i\<close> and bound to a transport \<open>t\<close> makes exactly one call, \<^verbatim>\<open>t.Write\<close>, with the varint
  encoding of \<open>i\<close> followed by \<open>P\<close>, and returns what that call returns; on a sub-flow
  constructed without an identifier the call is made with exactly \<open>P\<close>.
\<close>

theorem flow_write_framing:
  "(newFlowWithID i = Inr f \<longrightarrow>
      quicvarint_Write i = Inr (varIntID f) \<and>
      flow_write impl (f\<lparr>transport := Some t\<rparr>) P tr =
        (Inr (impl tr (EvWrite t (varIntID f @ P))), tr @ [EvWrite t (varIntID f @ P)]))
   \<and> flow_write impl (newFlow\<lparr>transport := Some t\<rparr>) P tr =
        (Inr (impl tr (EvWrite t P)), tr @ [EvWrite t P])"
  by (auto simp: flow_write_def frame_def newFlow_def newFlowWithID_def Let_def split: sum.splits)

text \<open>The instance of the specification's scenario A: identifier 7, payload \<open>[1, 2]\<close>.\<close>

theorem flow_write_framing_witness:
  "newFlowWithID 7 = Inr \<lparr>transport = None, useID = True, id' = 7, varIntID = [7]\<rparr>
   \<and> quicvarint_Write 7 = Inr [7]
   \<and> flow_write accepting_transport
        (\<lparr>transport = None, useID = True, id' = 7, varIntID = [7]\<rparr>\<lparr>transport := Some (Dgram 0)\<rparr>)
        [1, 2] ([] :: unit trace)
       = (Inr (3, None), [EvWrite (Dgram 0) [7, 1, 2]])
   \<and> flow_write accepting_transport (newFlow\<lparr>transport := Some (Dgram 0)\<rparr>) [1, 2] ([] :: unit trace)
       = (Inr (2, None), [EvWrite (Dgram 0) [1, 2]])"
  using flow_write_framing [where i = 7
      and f = "\<lparr>transport = None, useID = True, id' = 7, varIntID = [7]\<rparr>"
      and impl = "accepting_transport :: unit transport_impl" and t = "Dgram 0" and P = "[1, 2]"
      and tr = "[]"]
  by (simp add: newFlowWithID_def quicvarint_Write_def maxVarInt1_def accepting_transport_def)

text \<open>Without a transport, \<^verbatim>\<open>write\<close> panics and calls nothing.\<close>

lemma flow_write_unbound:
  "transport f = None \<Longrightarrow> flow_write impl f P tr = (Inl NilDereference, tr)"
  by (simp add: flow_write_def)

text \<open>
  Claim C3. For every payload and callback, \<^verbatim>\<open>writeWithCallBack\<close> on a sub-flow whose
  transport is neither a \<^verbatim>\<open>*Dgram\<close> nor a \<^verbatim>\<open>*Stream\<close> (another writer, or none) returns 0
  and \<^verbatim>\<open>errInvalidTransport\<close>, and calls nothing: the trace is unchanged.
\<close>

theorem writeWithCallBack_unsupported:
  "transport f = Some (OtherWriter r) \<or> transport f = None \<Longrightarrow>
   flow_writeWithCallBack impl f payload callback tr = (Inr (0, Some errInvalidTransport), tr)"
  by (auto simp: flow_writeWithCallBack_def Let_def)

theorem writeWithCallBack_unsupported_witness:
  "transport \<lparr>transport = Some (OtherWriter 0), useID = True, id' = 7, varIntID = [7]\<rparr>
     = Some (OtherWriter 0)
   \<and> flow_writeWithCallBack accepting_transport
       \<lparr>transport = Some (OtherWriter 0), useID = True, id' = 7, varIntID = [7]\<rparr> [1, 2] () []
     = (Inr (0, Some errInvalidTransport), [])
   \<and> flow_writeWithCallBack accepting_transport newFlow [1, 2] () []
     = (Inr (0, Some errInvalidTransport), [])
   \<and> Error errInvalidTransport = ''transport does not implement ack/loss callback''"
  using writeWithCallBack_unsupported [where r = 0 and impl = accepting_transport
      and f = "\<lparr>transport = Some (OtherWriter 0), useID = True, id' = 7, varIntID = [7]\<rparr>"
      and payload = "[1, 2]" and callback = "()" and tr = "[]"]
    writeWithCallBack_unsupported [where f = newFlow and impl = accepting_transport
      and payload = "[1, 2]" and callback = "()" and tr = "[]"]
  by (simp add: newFlow_def)

subsection \<open>The RTCP sub-flow\<close>

text \<open>
  Claim C8. For every sequence of RTCP packets that serializes to \<open>buf\<close>, \<^verbatim>\<open>Write\<close> of an RTCP
  sub-flow bound to a transport \<open>t\<close> makes exactly one call, the plain \<^verbatim>\<open>t.Write\<close>, with
  \<open>buf\<close>, prefixed by the varint encoding of the flow identifier when the sub-flow was
  created with one, and returns what that call returns; no callback is registered. If the
  serialization fails with \<open>err\<close>, it returns 0 and \<open>err\<close> and calls nothing, whatever the
  sub-flow.
\<close>

theorem RTCPFlow_Write_plain:
  "(marshal pkts = Inr buf \<and> NewRTCPFlowWithID i = Inr f0 \<longrightarrow>
      quicvarint_Write i = Inr (varIntID f0) \<and>
      RTCPFlow_Write marshal impl (RTCPFlow_Bind (Some t) f0) pkts tr =
        (Inr (impl tr (EvWrite t (varIntID f0 @ buf))), tr @ [EvWrite t (varIntID f0 @ buf)]))
   \<and> (marshal pkts = Inr buf \<longrightarrow>
      RTCPFlow_Write marshal impl (RTCPFlow_Bind (Some t) NewRTCPFlow) pkts tr =
        (Inr (impl tr (EvWrite t buf)), tr @ [EvWrite t buf]))
   \<and> (marshal pkts = Inl err \<longrightarrow>
      RTCPFlow_Write marshal impl f pkts tr = (Inr (0, Some err), tr))"
  by (auto simp: RTCPFlow_Write_def RTCPFlow_Bind_def NewRTCPFlow_def NewRTCPFlowWithID_def
      flow_write_def frame_def newFlow_def newFlowWithID_def Let_def split: sum.splits)

theorem RTCPFlow_Write_plain_witness:
  "example_rtcp_Marshal [Some [128, 201], Some [0, 1]] = Inr [128, 201, 0, 1]
   \<and> NewRTCPFlowWithID 300 = Inr \<lparr>transport = None, useID = True, id' = 300, varIntID = [65, 44]\<rparr>
   \<and> RTCPFlow_Write example_rtcp_Marshal accepting_transport
        (RTCPFlow_Bind (Some (Stream 2)) \<lparr>transport = None, useID = True, id' = 300, varIntID = [65, 44]\<rparr>)
        [Some [128, 201], Some [0, 1]] ([] :: unit trace)
      = (Inr (6, None), [EvWrite (Stream 2) [65, 44, 128, 201, 0, 1]])
   \<and> RTCPFlow_Write example_rtcp_Marshal accepting_transport
        (RTCPFlow_Bind (Some (Stream 2)) NewRTCPFlow) [Some [128, 201], Some [0, 1]] ([] :: unit trace)
      = (Inr (4, None), [EvWrite (Stream 2) [128, 201, 0, 1]])
   \<and> example_rtcp_Marshal [Some [128, 201], None] = Inl (CollaboratorError ''invalid packet'')
   \<and> RTCPFlow_Write example_rtcp_Marshal accepting_transport
        (RTCPFlow_Bind (Some (Stream 2)) NewRTCPFlow) [Some [128, 201], None] ([] :: unit trace)
      = (Inr (0, Some (CollaboratorError ''invalid packet'')), [])"
  using RTCPFlow_Write_plain [where marshal = example_rtcp_Marshal
      and pkts = "[Some [128, 201], Some [0, 1]]" and buf = "[128, 201, 0, 1]" and i = 300
      and ?f0.0 = "\<lparr>transport = None, useID = True, id' = 300, varIntID = [65, 44]\<rparr>"
      and impl = "accepting_transport :: unit transport_impl" and t = "Stream 2" and tr = "[]"]
    RTCPFlow_Write_plain [where marshal = example_rtcp_Marshal
      and pkts = "[Some [128, 201], None]" and err = "CollaboratorError ''invalid packet''"
      and impl = "accepting_transport :: unit transport_impl" and tr = "[]"
      and f = "RTCPFlow_Bind (Some (Stream 2)) NewRTCPFlow"]
  by (simp add: example_defs NewRTCPFlowWithID_def newFlowWithID_def quicvarint_Write_def
      maxVarInt_defs drop_bit_eq_div)

subsection \<open>Writing on the prioritized group\<close>

text \<open>
  Claim C9. For every header whose marshalling fails with \<open>err\<close>, \<^verbatim>\<open>Write\<close> of the group
  returns 0 and \<open>err\<close>, and the trace is unchanged: the policy is not asked, nothing is
  written to a transport, and no callback is registered. As a call in a sequence it
  leaves the group as it was.
\<close>

theorem Write_marshal_error:
  "header_Marshal K h = Inl err \<Longrightarrow>
   RTPFlow_Write (header_Marshal K) (header_MarshalSize K) (generator_ack K) (transport_impl K)
      now f h payload tr = (Inr (0, Some err), tr)
   \<and> step K (OpWrite h payload now) (f, tr) = (None, f, tr)"
  by (simp add: RTPFlow_Write_def)

theorem Write_marshal_error_witness:
  "header_Marshal example_collaborators unmarshallable_header = Inl (CollaboratorError ''short buffer'')
   \<and> RTPFlow_Write (header_Marshal example_collaborators) (header_MarshalSize example_collaborators)
        (generator_ack example_collaborators) (transport_impl example_collaborators)
        5000 feedback_group unmarshallable_header [1, 2] []
      = (Inr (0, Some (CollaboratorError ''short buffer'')), [])
   \<and> step example_collaborators (OpWrite unmarshallable_header [1, 2] 5000) (feedback_group, [])
      = (None, feedback_group, [])"
proof -
  have m: "header_Marshal example_collaborators unmarshallable_header
             = Inl (CollaboratorError ''short buffer'')"
    by (simp add: example_defs)
  from Write_marshal_error [OF m, of 5000 feedback_group "[1, 2]" "[]"] m show ?thesis by simp
qed

text \<open>
  Claim C2 speaks of every header. On a header whose marshalling fails the group's
  \<^verbatim>\<open>Write\<close> returns before it asks the policy: with a policy that answers the class 5, at
  which nothing is registered, it returns 0 and the codec's error, an ordinary result and
  not a panic, and sends nothing.
\<close>

theorem Write_routing_counterexample:
  "flows (SetPrioritizer (fixed_policy 5) example_group) 5 = None
   \<and> RTPFlow_Write example_Marshal example_MarshalSize example_ack accepting_transport 5000
        (SetPrioritizer (fixed_policy 5) example_group) unmarshallable_header [1, 2] []
      = (Inr (0, Some (CollaboratorError ''short buffer'')), [])"
  by (simp add: RTPFlow_Write_def SetPrioritizer_def example_defs)

text \<open>
  Claim C2, amended. For every policy and payload and every header whose marshalling
  succeeds, \<^verbatim>\<open>Write\<close> asks the policy once; if a sub-flow is registered under the class it
  answers, the result and the calls made are those of that sub-flow's \<^verbatim>\<open>write\<close> (of its
  \<^verbatim>\<open>writeWithCallBack\<close> when local feedback is enabled) on the marshalled header followed
  by the payload, and every transport call made is on that sub-flow's transport; if none
  is registered, \<^verbatim>\<open>Write\<close> panics with the class, and the only call made is the one to the
  policy.
\<close>

theorem Write_routing:
  assumes "Marshal h = Inr hb"
  shows "(flows f (prioritizer f h p) = Some fl \<longrightarrow>
           RTPFlow_Write Marshal MarshalSize ack impl now f h p tr =
             (case localFeedback f of
                None \<Rightarrow> flow_write impl fl (hb @ p) (tr @ [EvPrioritize h p])
              | Some g \<Rightarrow> flow_writeWithCallBack impl fl (hb @ p)
                  (ackCallback ack now (SSRC h) (MarshalSize h) (SequenceNumber h))
                  (tr @ [EvPrioritize h p]))
           \<and> (\<forall>e \<in> set (drop (length tr) (snd (RTPFlow_Write Marshal MarshalSize ack impl now f h p tr))).
                 event_writer e = None \<or> event_writer e = transport fl))
       \<and> (flows f (prioritizer f h p) = None \<longrightarrow>
           RTPFlow_Write Marshal MarshalSize ack impl now f h p tr =
             (Inl (NoFlowWithPrio (prioritizer f h p)), tr @ [EvPrioritize h p]))"
proof (intro conjI impI)
  assume fl: "flows f (prioritizer f h p) = Some fl"
  with assms show "RTPFlow_Write Marshal MarshalSize ack impl now f h p tr =
             (case localFeedback f of
                None \<Rightarrow> flow_write impl fl (hb @ p) (tr @ [EvPrioritize h p])
              | Some g \<Rightarrow> flow_writeWithCallBack impl fl (hb @ p)
                  (ackCallback ack now (SSRC h) (MarshalSize h) (SequenceNumber h))
                  (tr @ [EvPrioritize h p]))"
    by (simp add: RTPFlow_Write_def Let_def split: option.splits)
  obtain res tr' where w: "RTPFlow_Write Marshal MarshalSize ack impl now f h p tr = (res, tr')"
    by (cases "RTPFlow_Write Marshal MarshalSize ack impl now f h p tr")
  from RTPFlow_Write_events [OF w] fl
  show "\<forall>e \<in> set (drop (length tr) (snd (RTPFlow_Write Marshal MarshalSize ack impl now f h p tr))).
                 event_writer e = None \<or> event_writer e = transport fl"
    unfolding w by auto
next
  assume "flows f (prioritizer f h p) = None"
  with assms show "RTPFlow_Write Marshal MarshalSize ack impl now f h p tr =
             (Inl (NoFlowWithPrio (prioritizer f h p)), tr @ [EvPrioritize h p])"
    by (simp add: RTPFlow_Write_def Let_def)
qed

text \<open>The specification's scenario B: sub-flows at the classes 0 and 1, the policy answers 1
  for a packet with the marker bit; and the same packet under a policy that answers 5.\<close>

theorem Write_routing_witness:
  "example_Marshal example_header = Inr (replicate 12 0)
   \<and> prioritizer example_group example_header [1, 2] = 1
   \<and> flows example_group 1 = Some \<lparr>transport = Some (Dgram 1), useID = True, id' = 7, varIntID = [7]\<rparr>
   \<and> RTPFlow_Write example_Marshal example_MarshalSize example_ack accepting_transport 5000
        example_group example_header [1, 2] []
      = (Inr (15, None),
         [EvPrioritize example_header [1, 2], EvWrite (Dgram 1) (7 # replicate 12 0 @ [1, 2])])
   \<and> flows (SetPrioritizer (fixed_policy 5) example_group) 5 = None
   \<and> RTPFlow_Write example_Marshal example_MarshalSize example_ack accepting_transport 5000
        (SetPrioritizer (fixed_policy 5) example_group) example_header [1, 2] []
      = (Inl (NoFlowWithPrio 5), [EvPrioritize example_header [1, 2]])"
  using Write_routing [where Marshal = example_Marshal and h = example_header
      and hb = "replicate 12 0" and f = example_group and p = "[1, 2]"
      and fl = "\<lparr>transport = Some (Dgram 1), useID = True, id' = 7, varIntID = [7]\<rparr>"
      and MarshalSize = example_MarshalSize and ack = example_ack and impl = accepting_transport
      and now = 5000 and tr = "[]"]
    Write_routing [where Marshal = example_Marshal and h = example_header
      and hb = "replicate 12 0" and f = "SetPrioritizer (fixed_policy 5) example_group" and p = "[1, 2]"
      and MarshalSize = example_MarshalSize and ack = example_ack and impl = accepting_transport
      and now = 5000 and tr = "[]"]
  by (simp add: example_defs SetPrioritizer_def write_defs)

subsection \<open>Local feedback\<close>

text \<open>
  Claim C7 says that every \<^verbatim>\<open>Write\<close> after \<^verbatim>\<open>RunLocalFeedback\<close> performs a callback write, and
  every \<^verbatim>\<open>Write\<close> before it a plain write. After \<^verbatim>\<open>Bind\<close> of a writer that is neither a
  \<^verbatim>\<open>*Dgram\<close> nor a \<^verbatim>\<open>*Stream\<close> and \<^verbatim>\<open>RunLocalFeedback\<close>, a \<^verbatim>\<open>Write\<close> asks the policy, returns
  \<^verbatim>\<open>errInvalidTransport\<close> and writes nothing; and a \<^verbatim>\<open>Write\<close> on a fresh group, to which no
  transport is bound, panics and writes nothing.
\<close>

theorem local_feedback_switch_counterexample:
  "run example_collaborators
       [OpBind (Some (OtherWriter 0)), OpRunLocalFeedback 51966 () (),
        OpWrite example_header [1, 2] 5000] (NewRTPFlow, [])
     = (None, RunLocalFeedback example_new 51966 () () other_writer_group,
        [EvPrioritize example_header [1, 2]])
   \<and> RTPFlow_Write example_Marshal example_MarshalSize example_ack accepting_transport 5000
        (RunLocalFeedback example_new 51966 () () other_writer_group) example_header [1, 2] []
     = (Inr (0, Some errInvalidTransport), [EvPrioritize example_header [1, 2]])
   \<and> RTPFlow_Write example_Marshal example_MarshalSize example_ack accepting_transport 5000
        (NewRTPFlow :: ackedPkt list RTPFlow) example_header [1, 2] []
     = (Inl NilDereference, [EvPrioritize example_header [1, 2]])"
  by (simp add: example_defs op_defs write_defs defaultPriorityFunc_def)

text \<open>
  Claim C7, amended. After \<^verbatim>\<open>RunLocalFeedback\<close>, whatever calls follow (\<open>xs\<close>), none of them
  makes a plain write; and a \<^verbatim>\<open>Write\<close> in the state reached, on a header that marshals and
  a class that is registered, is the \<^verbatim>\<open>writeWithCallBack\<close> of the sub-flow: if the sub-flow
  is bound to a \<^verbatim>\<open>*Dgram\<close> or \<^verbatim>\<open>*Stream\<close> \<open>t\<close>, it makes, after the call to the policy,
  exactly one call, \<^verbatim>\<open>t.WriteWithAckLossCallback\<close>, with the framed packet and the callback
  of \<^verbatim>\<open>ackCallback\<close>, and returns what that call returns; if it is bound to another writer
  or to none, it returns 0 and \<^verbatim>\<open>errInvalidTransport\<close> and calls no transport. In a group on
  which \<^verbatim>\<open>RunLocalFeedback\<close> has not been called (as every freshly created group is), as
  long as the calls contain no \<^verbatim>\<open>RunLocalFeedback\<close>, no call registers a callback; and such
  a \<^verbatim>\<open>Write\<close> is the plain \<^verbatim>\<open>write\<close> of the sub-flow: if the sub-flow is bound to a
  transport \<open>t\<close>, it makes, after the call to the policy, exactly one call, \<^verbatim>\<open>t.Write\<close>, with
  the framed packet, and returns what that call returns; if no transport is bound, it
  panics and calls no transport. (A header that does not marshal and a class that is not
  registered are the subject of the claims C9 and C2.)
\<close>

theorem local_feedback_switch:
  "(run K (OpRunLocalFeedback s m r # xs) (f0, tr0) = (res, f, tr) \<longrightarrow>
      (\<exists>evs. tr = tr0 @ evs \<and> (\<forall>e \<in> set evs. \<not> is_plain_write e))
      \<and> (header_Marshal K h = Inr hb \<and> flows f (prioritizer f h p) = Some fl \<longrightarrow>
           RTPFlow_Write (header_Marshal K) (header_MarshalSize K) (generator_ack K)
               (transport_impl K) now f h p tr
             = flow_writeWithCallBack (transport_impl K) fl (hb @ p)
                 (ackCallback (generator_ack K) now (SSRC h) (header_MarshalSize K h) (SequenceNumber h))
                 (tr @ [EvPrioritize h p])
           \<and> (transport fl = Some t \<and> has_WriteWithAckLossCallback t \<longrightarrow>
                RTPFlow_Write (header_Marshal K) (header_MarshalSize K) (generator_ack K)
                    (transport_impl K) now f h p tr
                  = (Inr (transport_impl K (tr @ [EvPrioritize h p])
                       (EvWriteWithAckLossCallback t (frame fl (hb @ p))
                          (ackCallback (generator_ack K) now (SSRC h) (header_MarshalSize K h)
                             (SequenceNumber h)))),
                     tr @ [EvPrioritize h p,
                       EvWriteWithAckLossCallback t (frame fl (hb @ p))
                          (ackCallback (generator_ack K) now (SSRC h) (header_MarshalSize K h)
                             (SequenceNumber h))]))
           \<and> (transport fl = None \<or> (transport fl = Some t \<and> \<not> has_WriteWithAckLossCallback t) \<longrightarrow>
                RTPFlow_Write (header_Marshal K) (header_MarshalSize K) (generator_ack K)
                    (transport_impl K) now f h p tr
                  = (Inr (0, Some errInvalidTransport), tr @ [EvPrioritize h p]))))
   \<and> (localFeedback f0 = None \<and> (\<forall>x \<in> set xs. \<not> is_RunLocalFeedback x)
        \<and> run K xs (f0, tr0) = (res, f, tr) \<longrightarrow>
      (\<exists>evs. tr = tr0 @ evs \<and> (\<forall>e \<in> set evs. \<not> is_callback_write e))
      \<and> (header_Marshal K h = Inr hb \<and> flows f (prioritizer f h p) = Some fl \<longrightarrow>
           RTPFlow_Write (header_Marshal K) (header_MarshalSize K) (generator_ack K)
               (transport_impl K) now f h p tr
             = flow_write (transport_impl K) fl (hb @ p) (tr @ [EvPrioritize h p])
           \<and> (transport fl = Some t \<longrightarrow>
                RTPFlow_Write (header_Marshal K) (header_MarshalSize K) (generator_ack K)
                    (transport_impl K) now f h p tr
                  = (Inr (transport_impl K (tr @ [EvPrioritize h p]) (EvWrite t (frame fl (hb @ p)))),
                     tr @ [EvPrioritize h p, EvWrite t (frame fl (hb @ p))]))
           \<and> (transport fl = None \<longrightarrow>
                RTPFlow_Write (header_Marshal K) (header_MarshalSize K) (generator_ack K)
                    (transport_impl K) now f h p tr
                  = (Inl NilDereference, tr @ [EvPrioritize h p]))))
   \<and> localFeedback (NewRTPFlow :: 'g RTPFlow) = None
   \<and> (NewRTPFlowWithID i = Inr (f1 :: 'g RTPFlow) \<longrightarrow> localFeedback f1 = None)"
proof -
  have A: "(\<exists>evs. tr = tr0 @ evs \<and> (\<forall>e \<in> set evs. \<not> is_plain_write e)) \<and> localFeedback f \<noteq> None"
    if a: "run K (OpRunLocalFeedback s m r # xs) (f0, tr0) = (res, f, tr)"
  proof -
    from a have "run K xs (RunLocalFeedback (generator_new K) s m r f0, tr0) = (res, f, tr)"
      by simp
    from run_enabled [OF this] show ?thesis by (simp add: RunLocalFeedback_def)
  qed
  have B: "(\<exists>evs. tr = tr0 @ evs \<and> (\<forall>e \<in> set evs. \<not> is_callback_write e)) \<and> localFeedback f = None"
    if "localFeedback f0 = None \<and> (\<forall>x \<in> set xs. \<not> is_RunLocalFeedback x)
        \<and> run K xs (f0, tr0) = (res, f, tr)"
    using that run_disabled [of K xs f0 tr0 res f tr] by simp
  have en: "RTPFlow_Write (header_Marshal K) (header_MarshalSize K) (generator_ack K)
               (transport_impl K) now f h p tr
             = flow_writeWithCallBack (transport_impl K) fl (hb @ p)
                 (ackCallback (generator_ack K) now (SSRC h) (header_MarshalSize K h) (SequenceNumber h))
                 (tr @ [EvPrioritize h p])"
    if "localFeedback f \<noteq> None" "header_Marshal K h = Inr hb \<and> flows f (prioritizer f h p) = Some fl"
    using that by (auto simp: RTPFlow_Write_def Let_def)
  have dis: "RTPFlow_Write (header_Marshal K) (header_MarshalSize K) (generator_ack K)
               (transport_impl K) now f h p tr
             = flow_write (transport_impl K) fl (hb @ p) (tr @ [EvPrioritize h p])"
    if "localFeedback f = None" "header_Marshal K h = Inr hb \<and> flows f (prioritizer f h p) = Some fl"
    using that by (simp add: RTPFlow_Write_def Let_def)
  show ?thesis
  proof (intro conjI impI)
    assume r: "run K (OpRunLocalFeedback s m r # xs) (f0, tr0) = (res, f, tr)"
    from A [OF r] show "\<exists>evs. tr = tr0 @ evs \<and> (\<forall>e \<in> set evs. \<not> is_plain_write e)" by simp
    assume m: "header_Marshal K h = Inr hb \<and> flows f (prioritizer f h p) = Some fl"
    from A [OF r] have e: "localFeedback f \<noteq> None" by simp
    show "RTPFlow_Write (header_Marshal K) (header_MarshalSize K) (generator_ack K)
               (transport_impl K) now f h p tr
             = flow_writeWithCallBack (transport_impl K) fl (hb @ p)
                 (ackCallback (generator_ack K) now (SSRC h) (header_MarshalSize K h) (SequenceNumber h))
                 (tr @ [EvPrioritize h p])"
      by (rule en [OF e m])
    {
      assume "transport fl = Some t \<and> has_WriteWithAckLossCallback t"
      then show "RTPFlow_Write (header_Marshal K) (header_MarshalSize K) (generator_ack K)
                    (transport_impl K) now f h p tr
                  = (Inr (transport_impl K (tr @ [EvPrioritize h p])
                       (EvWriteWithAckLossCallback t (frame fl (hb @ p))
                          (ackCallback (generator_ack K) now (SSRC h) (header_MarshalSize K h)
                             (SequenceNumber h)))),
                     tr @ [EvPrioritize h p,
                       EvWriteWithAckLossCallback t (frame fl (hb @ p))
                          (ackCallback (generator_ack K) now (SSRC h) (header_MarshalSize K h)
                             (SequenceNumber h))])"
        unfolding en [OF e m] by (cases t) (simp_all add: flow_writeWithCallBack_def Let_def)
    }
    {
      assume "transport fl = None \<or> (transport fl = Some t \<and> \<not> has_WriteWithAckLossCallback t)"
      then show "RTPFlow_Write (header_Marshal K) (header_MarshalSize K) (generator_ack K)
                    (transport_impl K) now f h p tr
                  = (Inr (0, Some errInvalidTransport), tr @ [EvPrioritize h p])"
        unfolding en [OF e m] by (cases t) (auto simp: flow_writeWithCallBack_def Let_def)
    }
  next
    assume r: "localFeedback f0 = None \<and> (\<forall>x \<in> set xs. \<not> is_RunLocalFeedback x)
        \<and> run K xs (f0, tr0) = (res, f, tr)"
    from B [OF r] show "\<exists>evs. tr = tr0 @ evs \<and> (\<forall>e \<in> set evs. \<not> is_callback_write e)" by simp
    assume m: "header_Marshal K h = Inr hb \<and> flows f (prioritizer f h p) = Some fl"
    from B [OF r] have e: "localFeedback f = None" by simp
    show "RTPFlow_Write (header_Marshal K) (header_MarshalSize K) (generator_ack K)
               (transport_impl K) now f h p tr
             = flow_write (transport_impl K) fl (hb @ p) (tr @ [EvPrioritize h p])"
      by (rule dis [OF e m])
    {
      assume "transport fl = Some t"
      then show "RTPFlow_Write (header_Marshal K) (header_MarshalSize K) (generator_ack K)
                    (transport_impl K) now f h p tr
                  = (Inr (transport_impl K (tr @ [EvPrioritize h p]) (EvWrite t (frame fl (hb @ p)))),
                     tr @ [EvPrioritize h p, EvWrite t (frame fl (hb @ p))])"
        unfolding dis [OF e m] by (simp add: flow_write_def Let_def)
    }
    {
      assume "transport fl = None"
      then show "RTPFlow_Write (header_Marshal K) (header_MarshalSize K) (generator_ack K)
                    (transport_impl K) now f h p tr
                  = (Inl NilDereference, tr @ [EvPrioritize h p])"
        unfolding dis [OF e m] by (simp add: flow_write_def Let_def)
    }
  next
    show "localFeedback (NewRTPFlow :: 'g RTPFlow) = None" by (simp add: NewRTPFlow_def)
  next
    assume "NewRTPFlowWithID i = Inr f1"
    then show "localFeedback f1 = None"
      by (auto simp: NewRTPFlowWithID_def split: sum.splits)
  qed
qed

text \<open>A second \<^verbatim>\<open>Write\<close> on the example group after \<^verbatim>\<open>RunLocalFeedback\<close> and a first
  \<^verbatim>\<open>Write\<close>, and without \<^verbatim>\<open>RunLocalFeedback\<close>; a \<^verbatim>\<open>Write\<close> after \<^verbatim>\<open>RunLocalFeedback\<close> on the
  group bound to another writer; a \<^verbatim>\<open>Write\<close> on the fresh group.\<close>

theorem local_feedback_switch_witness:
  "run example_collaborators
       [OpRunLocalFeedback 51966 () (), OpWrite example_header [1, 2] 5000] (example_group, [])
     = (None, feedback_group,
        [EvPrioritize example_header [1, 2],
         EvWriteWithAckLossCallback (Dgram 1) (7 # replicate 12 0 @ [1, 2])
           (ackCallback example_ack 5000 51966 12 1000)])
   \<and> header_Marshal example_collaborators example_header = Inr (replicate 12 0)
   \<and> flows feedback_group (prioritizer feedback_group example_header [3])
     = Some \<lparr>transport = Some (Dgram 1), useID = True, id' = 7, varIntID = [7]\<rparr>
   \<and> has_WriteWithAckLossCallback (Dgram 1)
   \<and> RTPFlow_Write example_Marshal example_MarshalSize example_ack accepting_transport 6000
        feedback_group example_header [3]
        [EvPrioritize example_header [1, 2],
         EvWriteWithAckLossCallback (Dgram 1) (7 # replicate 12 0 @ [1, 2])
           (ackCallback example_ack 5000 51966 12 1000)]
     = (Inr (14, None),
        [EvPrioritize example_header [1, 2],
         EvWriteWithAckLossCallback (Dgram 1) (7 # replicate 12 0 @ [1, 2])
           (ackCallback example_ack 5000 51966 12 1000),
         EvPrioritize example_header [3],
         EvWriteWithAckLossCallback (Dgram 1) (7 # replicate 12 0 @ [3])
           (ackCallback example_ack 6000 51966 12 1000)])
   \<and> run example_collaborators [OpRunLocalFeedback 51966 () ()] (other_writer_group, [])
     = (None, RunLocalFeedback example_new 51966 () () other_writer_group, [])
   \<and> flows (RunLocalFeedback example_new 51966 () () other_writer_group)
        (prioritizer (RunLocalFeedback example_new 51966 () () other_writer_group) example_header [3])
     = Some \<lparr>transport = Some (OtherWriter 0), useID = False, id' = 0, varIntID = []\<rparr>
   \<and> \<not> has_WriteWithAckLossCallback (OtherWriter 0)
   \<and> RTPFlow_Write example_Marshal example_MarshalSize example_ack accepting_transport 6000
        (RunLocalFeedback example_new 51966 () () other_writer_group) example_header [3] []
     = (Inr (0, Some errInvalidTransport), [EvPrioritize example_header [3]])
   \<and> localFeedback example_group = None
   \<and> \<not> is_RunLocalFeedback (OpWrite example_header [1, 2] 5000 :: (unit, unit) rtp_op)
   \<and> run example_collaborators [OpWrite example_header [1, 2] 5000] (example_group, [])
     = (None, example_group,
        [EvPrioritize example_header [1, 2], EvWrite (Dgram 1) (7 # replicate 12 0 @ [1, 2])])
   \<and> flows example_group (prioritizer example_group example_header [3])
     = Some \<lparr>transport = Some (Dgram 1), useID = True, id' = 7, varIntID = [7]\<rparr>
   \<and> RTPFlow_Write example_Marshal example_MarshalSize example_ack accepting_transport 6000
        example_group example_header [3]
        [EvPrioritize example_header [1, 2], EvWrite (Dgram 1) (7 # replicate 12 0 @ [1, 2])]
     = (Inr (14, None),
        [EvPrioritize example_header [1, 2], EvWrite (Dgram 1) (7 # replicate 12 0 @ [1, 2]),
         EvPrioritize example_header [3], EvWrite (Dgram 1) (7 # replicate 12 0 @ [3])])
   \<and> run example_collaborators [] (NewRTPFlow, []) = (None, NewRTPFlow, [])
   \<and> flows (NewRTPFlow :: ackedPkt list RTPFlow)
        (prioritizer (NewRTPFlow :: ackedPkt list RTPFlow) example_header [3]) = Some newFlow
   \<and> transport newFlow = None
   \<and> RTPFlow_Write example_Marshal example_MarshalSize example_ack accepting_transport 6000
        (NewRTPFlow :: ackedPkt list RTPFlow) example_header [3] []
     = (Inl NilDereference, [EvPrioritize example_header [3]])
   \<and> NewRTPFlowWithID 7 = Inr identified_group
   \<and> localFeedback identified_group = None"
  using local_feedback_switch [where K = example_collaborators and s = 51966 and m = "()" and r = "()"
      and xs = "[OpWrite example_header [1, 2] 5000]" and ?f0.0 = example_group and ?tr0.0 = "[]"
      and res = None and f = feedback_group
      and tr = "[EvPrioritize example_header [1, 2],
         EvWriteWithAckLossCallback (Dgram 1) (7 # replicate 12 0 @ [1, 2])
           (ackCallback example_ack 5000 51966 12 1000)]"
      and h = example_header and hb = "replicate 12 0" and p = "[3]" and now = 6000
      and fl = "\<lparr>transport = Some (Dgram 1), useID = True, id' = 7, varIntID = [7]\<rparr>"
      and t = "Dgram 1" and i = 7 and ?f1.0 = identified_group]
    local_feedback_switch [where K = example_collaborators and s = 51966 and m = "()" and r = "()"
      and xs = "[]" and ?f0.0 = other_writer_group and ?tr0.0 = "[]"
      and res = None and f = "RunLocalFeedback example_new 51966 () () other_writer_group"
      and tr = "[]"
      and h = example_header and hb = "replicate 12 0" and p = "[3]" and now = 6000
      and fl = "\<lparr>transport = Some (OtherWriter 0), useID = False, id' = 0, varIntID = []\<rparr>"
      and t = "OtherWriter 0" and i = 7 and ?f1.0 = identified_group]
    local_feedback_switch [where K = example_collaborators
      and xs = "[OpWrite example_header [1, 2] 5000]" and ?f0.0 = example_group and ?tr0.0 = "[]"
      and res = None and f = example_group
      and tr = "[EvPrioritize example_header [1, 2], EvWrite (Dgram 1) (7 # replicate 12 0 @ [1, 2])]"
      and h = example_header and hb = "replicate 12 0" and p = "[3]" and now = 6000
      and fl = "\<lparr>transport = Some (Dgram 1), useID = True, id' = 7, varIntID = [7]\<rparr>"
      and t = "Dgram 1" and i = 7 and ?f1.0 = identified_group]
    local_feedback_switch [where K = example_collaborators
      and xs = "[]" and ?f0.0 = "NewRTPFlow" and ?tr0.0 = "[]"
      and res = None and f = "NewRTPFlow" and tr = "[]"
      and h = example_header and hb = "replicate 12 0" and p = "[3]" and now = 6000
      and fl = newFlow and i = 7 and ?f1.0 = identified_group]
  by (simp add: example_defs op_defs write_defs defaultPriorityFunc_def quicvarint_Write_def maxVarInt1_def)

text \<open>What a callback that \<^verbatim>\<open>Write\<close> registered hands to the generator when it is called with
  \<^verbatim>\<open>true\<close>: the clock reading of the write, the header's SSRC and sequence number, and, as
  the size, the value of \<^verbatim>\<open>header.MarshalSize()\<close>.\<close>

lemma ack_record_fields:
  assumes "EvWriteWithAckLossCallback t bs cb
             \<in> set (drop (length tr) (snd (RTPFlow_Write Marshal MarshalSize ack impl now f h p tr)))"
    and "localFeedback f' = Some g"
  shows "cb True f' = Inr (f'\<lparr>localFeedback := Some (ack
           \<lparr>sentTS = now, ssrc = SSRC h, size' = MarshalSize h, seqNr = SequenceNumber h\<rparr> g)\<rparr>)"
proof -
  obtain res tr' where w: "RTPFlow_Write Marshal MarshalSize ack impl now f h p tr = (res, tr')"
    by (cases "RTPFlow_Write Marshal MarshalSize ack impl now f h p tr")
  from RTPFlow_Write_events [OF w] assms(1) w
  have "cb = ackCallback ack now (SSRC h) (MarshalSize h) (SequenceNumber h)" by auto
  with assms(2) show ?thesis by (simp add: ackCallback_def)
qed

text \<open>A callback of \<^verbatim>\<open>ackCallback\<close> changes nothing of the group but the generator's state.\<close>

lemma ackCallback_frame:
  "ackCallback ack sent s n q b f = Inr f' \<Longrightarrow>
   flows f' = flows f \<and> prioritizer f' = prioritizer f
   \<and> (localFeedback f' = None \<longleftrightarrow> localFeedback f = None)"
  by (auto simp: ackCallback_def split: if_splits option.splits)

text \<open>
  Claim C4 says that the size of the record is the size of the transmitted packet,
  marshalled header plus payload. The code at a concrete input: a header that marshals to
  twelve bytes and a payload of two bytes, on the sub-flow of class 0, which has no
  identifier. Fourteen bytes are handed to the transport; the record that the callback
  hands to the generator has the time, the SSRC and the sequence number of the claim, and
  the size 12.
\<close>

theorem ack_record_size_is_header_size:
  "RTPFlow_Write example_Marshal example_MarshalSize example_ack accepting_transport 5000
       feedback_group (example_header\<lparr>Marker := False\<rparr>) [1, 2] []
     = (Inr (14, None),
        [EvPrioritize (example_header\<lparr>Marker := False\<rparr>) [1, 2],
         EvWriteWithAckLossCallback (Dgram 0) (replicate 12 0 @ [1, 2])
           (ackCallback example_ack 5000 51966 12 1000)])
   \<and> ackCallback example_ack 5000 51966 12 1000 True feedback_group
     = Inr (feedback_group\<lparr>localFeedback :=
              Some [\<lparr>sentTS = 5000, ssrc = 51966, size' = 12, seqNr = 1000\<rparr>]\<rparr>)
   \<and> length (replicate 12 (0 :: byte) @ [1, 2]) = 14"
  by (simp add: example_defs RunLocalFeedback_def write_defs ackCallback_def)

text \<open>
  Claim C5. Every callback that \<^verbatim>\<open>Write\<close> registers with a transport, called with \<^verbatim>\<open>false\<close>,
  returns the group it is called on unchanged, whatever that group is: the generator's
  state is the same and its \<^verbatim>\<open>ack\<close> is not called.
\<close>

theorem lost_packet_no_record:
  assumes "EvWriteWithAckLossCallback t bs cb
             \<in> set (drop (length tr) (snd (RTPFlow_Write Marshal MarshalSize ack impl now f h p tr)))"
  shows "cb False f' = Inr f'"
proof -
  obtain res tr' where w: "RTPFlow_Write Marshal MarshalSize ack impl now f h p tr = (res, tr')"
    by (cases "RTPFlow_Write Marshal MarshalSize ack impl now f h p tr")
  from RTPFlow_Write_events [OF w] assms w
  have "cb = ackCallback ack now (SSRC h) (MarshalSize h) (SequenceNumber h)" by auto
  then show ?thesis by (simp add: ackCallback_def)
qed

theorem lost_packet_no_record_witness:
  "EvWriteWithAckLossCallback (Dgram 1) (7 # replicate 12 0 @ [1, 2])
       (ackCallback example_ack 5000 51966 12 1000)
     \<in> set (drop (length ([] :: ackedPkt list callback trace))
         (snd (RTPFlow_Write example_Marshal example_MarshalSize example_ack accepting_transport 5000
            feedback_group example_header [1, 2] [])))
   \<and> ackCallback example_ack 5000 51966 12 1000 False feedback_group = Inr feedback_group"
proof -
  have m: "EvWriteWithAckLossCallback (Dgram 1) (7 # replicate 12 0 @ [1, 2])
       (ackCallback example_ack 5000 51966 12 1000)
     \<in> set (drop (length ([] :: ackedPkt list callback trace))
         (snd (RTPFlow_Write example_Marshal example_MarshalSize example_ack accepting_transport 5000
            feedback_group example_header [1, 2] [])))"
    by (simp add: example_defs RunLocalFeedback_def write_defs)
  from lost_packet_no_record [OF m, of feedback_group] m show ?thesis by simp
qed

subsection \<open>The default class\<close>

text \<open>
  Claim C6 says that the one sub-flow of a freshly created group is unidentified. A group
  created by \<^verbatim>\<open>NewRTPFlowWithID\<close> has one sub-flow at class 0 that carries the identifier
  and prefixes its encoding.
\<close>

theorem fresh_group_counterexample:
  "NewRTPFlowWithID 7 = Inr identified_group
   \<and> flows identified_group 0 = Some identified_flow
   \<and> useID identified_flow
   \<and> frame identified_flow [1, 2] = [7, 1, 2]"
  by (simp add: example_defs op_defs frame_def quicvarint_Write_def maxVarInt1_def)

text \<open>
  Claim C6, amended. A group created by \<^verbatim>\<open>NewRTPFlow\<close> has exactly one sub-flow, at class 0
  and without identifier (no prefix); a group created by \<^verbatim>\<open>NewRTPFlowWithID\<close> has exactly
  one sub-flow, at class 0, with the given identifier, which prefixes the varint encoding
  of it. In both the policy answers 0 for every header and payload. After every sequence
  of calls on either group (\<^verbatim>\<open>Bind\<close>, \<^verbatim>\<open>BindPriority\<close>, \<^verbatim>\<open>SetPrioritizer\<close>, and also
  \<^verbatim>\<open>RunLocalFeedback\<close> and \<^verbatim>\<open>Write\<close>), completed or ended by a panic, a sub-flow is
  registered at class 0.
\<close>

theorem default_class:
  "flows (NewRTPFlow :: 'g RTPFlow) = [0 \<mapsto> newFlow] \<and> \<not> useID newFlow \<and> frame newFlow P = P
   \<and> prioritizer (NewRTPFlow :: 'g RTPFlow) h p = 0
   \<and> (NewRTPFlowWithID i = Inr (f1 :: 'g RTPFlow) \<longrightarrow>
        (\<exists>fl. flows f1 = [0 \<mapsto> fl] \<and> newFlowWithID i = Inr fl \<and> useID fl \<and> id' fl = i
              \<and> quicvarint_Write i = Inr (varIntID fl) \<and> frame fl P = varIntID fl @ P)
        \<and> prioritizer f1 h p = 0)
   \<and> (run K xs (NewRTPFlow, tr) = (r, f, tr') \<longrightarrow> flows f 0 \<noteq> None)
   \<and> (NewRTPFlowWithID i = Inr f1 \<and> run K xs (f1, tr) = (r, f, tr') \<longrightarrow> flows f 0 \<noteq> None)"
proof (intro conjI impI)
  show "flows (NewRTPFlow :: 'g RTPFlow) = [0 \<mapsto> newFlow]" by (simp add: NewRTPFlow_def)
  show "\<not> useID newFlow" by (simp add: newFlow_def)
  show "frame newFlow P = P" by (simp add: frame_def newFlow_def)
  show "prioritizer (NewRTPFlow :: 'g RTPFlow) h p = 0"
    by (simp add: NewRTPFlow_def defaultPriorityFunc_def)
next
  assume "NewRTPFlowWithID i = Inr f1"
  then show "\<exists>fl. flows f1 = [0 \<mapsto> fl] \<and> newFlowWithID i = Inr fl \<and> useID fl \<and> id' fl = i
              \<and> quicvarint_Write i = Inr (varIntID fl) \<and> frame fl P = varIntID fl @ P"
    by (auto simp: NewRTPFlowWithID_def newFlowWithID_def frame_def split: sum.splits)
next
  assume "NewRTPFlowWithID i = Inr f1"
  then show "prioritizer f1 h p = 0"
    by (auto simp: NewRTPFlowWithID_def defaultPriorityFunc_def split: sum.splits)
next
  assume "run K xs (NewRTPFlow, tr) = (r, f, tr')"
  from run_flows_0 [OF this] show "flows f 0 \<noteq> None" by (simp add: NewRTPFlow_def)
next
  assume a: "NewRTPFlowWithID i = Inr f1 \<and> run K xs (f1, tr) = (r, f, tr')"
  then have "flows f1 0 \<noteq> None" by (auto simp: NewRTPFlowWithID_def split: sum.splits)
  with a run_flows_0 [of K xs f1 tr r f tr'] show "flows f 0 \<noteq> None" by simp
qed

text \<open>The calls of \<open>example_setup\<close> on the group of \<^verbatim>\<open>NewRTPFlow\<close>; and \<^verbatim>\<open>BindPriority(0, 9, nil)\<close>
  on the group of \<^verbatim>\<open>NewRTPFlowWithID(7)\<close>, which replaces the sub-flow at class 0.\<close>

theorem default_class_witness:
  "NewRTPFlowWithID 7 = Inr identified_group
   \<and> flows identified_group = [0 \<mapsto> identified_flow]
   \<and> run example_collaborators example_setup (NewRTPFlow, []) = (None, example_group, [])
   \<and> flows example_group 0 = Some \<lparr>transport = Some (Dgram 0), useID = False, id' = 0, varIntID = []\<rparr>
   \<and> run example_collaborators [OpBindPriority 0 9 None] (identified_group, [])
      = (None, identified_group\<lparr>flows := [0 \<mapsto> identified_flow\<lparr>id' := 9, varIntID := [9]\<rparr>]\<rparr>, [])"
  using default_class [where i = 7 and K = example_collaborators and xs = example_setup
      and tr = "[]" and r = None and f = example_group and tr' = "[]"
      and ?f1.0 = identified_group]
    default_class [where i = 7 and K = example_collaborators and xs = "[OpBindPriority 0 9 None]"
      and tr = "[]" and r = None and tr' = "[]"
      and f = "identified_group\<lparr>flows := [0 \<mapsto> identified_flow\<lparr>id' := 9, varIntID := [9]\<rparr>]\<rparr>"
      and ?f1.0 = identified_group]
  by (simp add: example_defs op_defs quicvarint_Write_def maxVarInt1_def fun_upd_twist)

subsection \<open>Congestion-control algorithm names\<close>

lemmas CongestionControlAlgorithm_defs = Reno_def Cubic_def BBR_def SCReAM_def GCC_def

text \<open>\<^verbatim>\<open>String\<close> returns on the five defined values only.\<close>

lemma CongestionControlAlgorithm_String_defined:
  assumes "CongestionControlAlgorithm_String a = Some r"
  shows "a \<in> set [Reno, Cubic, BBR, SCReAM, GCC]"
proof (rule CongestionControlAlgorithm_String.raw_induct
    [where P = "\<lambda>a r. a \<in> set [Reno, Cubic, BBR, SCReAM, GCC]", OF _ assms])
  fix str x y
  assume ih: "\<And>x' y'. str x' = Some y' \<Longrightarrow> x' \<in> set [Reno, Cubic, BBR, SCReAM, GCC]"
    and eq: "(if x = Reno then Some (''reno'', [])
      else if x = Cubic then Some (''cubic'', [])
      else if x = BBR then Some (''bbr'', [])
      else if x = SCReAM then Some (''scream'', [])
      else if x = GCC then Some (''gcc'', [])
      else Option.bind (str x)
             (\<lambda>(shown, logged). Some (''none'', logged @ [UndefinedAlgorithm shown]))) = Some y"
  show "x \<in> set [Reno, Cubic, BBR, SCReAM, GCC]"
  proof (cases "x \<in> set [Reno, Cubic, BBR, SCReAM, GCC]")
    case True
    then show ?thesis .
  next
    case False
    with eq obtain z where "str x = Some z"
      by (auto simp: Option.bind_eq_Some_conv)
    from ih [OF this] show ?thesis .
  qed
qed

lemma CongestionControlAlgorithm_String_undefined:
  "a \<notin> set [Reno, Cubic, BBR, SCReAM, GCC] \<Longrightarrow> CongestionControlAlgorithm_String a = None"
  using CongestionControlAlgorithm_String_defined [of a]
  by (cases "CongestionControlAlgorithm_String a") auto

text \<open>
  Claim C10. For each of the five defined values, \<^verbatim>\<open>String\<close> returns a name, and
  \<^verbatim>\<open>CongestionControlAlgorithmFromString\<close> of that name gives the value back (and neither
  logs a warning); every string that is not one of the five names is converted to
  \<^verbatim>\<open>Reno\<close> (with a warning).
\<close>

theorem CongestionControlAlgorithm_roundtrip:
  "(a \<in> set [Reno, Cubic, BBR, SCReAM, GCC] \<longrightarrow>
      (\<exists>name. CongestionControlAlgorithm_String a = Some (name, [])
         \<and> CongestionControlAlgorithmFromString name = (a, [])))
   \<and> (s \<notin> set [''reno'', ''cubic'', ''bbr'', ''scream'', ''gcc''] \<longrightarrow>
      CongestionControlAlgorithmFromString s = (Reno, [UnknownAlgorithm s]))"
  by (auto simp: CongestionControlAlgorithmFromString_def CongestionControlAlgorithm_String.simps
      CongestionControlAlgorithm_defs)

theorem CongestionControlAlgorithm_roundtrip_witness:
  "SCReAM \<in> set [Reno, Cubic, BBR, SCReAM, GCC]
   \<and> CongestionControlAlgorithm_String SCReAM = Some (''scream'', [])
   \<and> CongestionControlAlgorithmFromString ''scream'' = (SCReAM, [])
   \<and> ''quic'' \<notin> set [''reno'', ''cubic'', ''bbr'', ''scream'', ''gcc'']
   \<and> CongestionControlAlgorithmFromString ''quic'' = (Reno, [UnknownAlgorithm ''quic''])"
  using CongestionControlAlgorithm_roundtrip [of SCReAM "''quic''"]
  by (simp add: CongestionControlAlgorithm_String.simps CongestionControlAlgorithm_defs)

end
